theory Spec2Isabelle
  imports Main "HOL-Library.Word"
begin

section \<open>Data model of package errors\<close>

text \<open>
  A Go value of interface type \<open>error\<close> is observed by the code only through a nil test
  and its \<open>Error()\<close> method, so a non-nil error is represented by the text that method
  returns; a possibly nil \<open>error\<close> is a \<open>go_error option\<close>, with \<open>None\<close> for nil.
  Go strings and byte slices are byte sequences, as \<open>string\<close> is here.
\<close>

datatype go_error = GoError (Error_text: string)

text \<open>A run-time panic of the Go program is a value of the model.\<close>

datatype panic = NilDereference | NilMapAssignment

text \<open>
  \<open>codes.Code\<close> is a \<open>uint32\<close>. The standard codes OK, Unknown and NotFound of package
  \<open>codes\<close>, and the two codes package \<open>status\<close> of the repository adds.
\<close>

type_synonym Code = "32 word"

definition codes_OK :: Code where
  "codes_OK = 0"

definition codes_Unknown :: Code where
  "codes_Unknown = 2"

definition codes_NotFound :: Code where
  "codes_NotFound = 5"

definition METHOD_NOT_FOUND :: Code where
  "METHOD_NOT_FOUND = 8088"

definition NO_CONNECTION :: Code where
  "NO_CONNECTION = 8089"

definition Owner :: string where
  "Owner = ''components-contrib''"

definition Domain_const :: string where
  "Domain_const = ''dapr.io''"

definition unknown :: string where
  "unknown = ''UNKNOWN_REASON''"

definition StatusInternalServerError :: int where
  "StatusInternalServerError = 500"

definition unknownHTTPCode :: int where
  "unknownHTTPCode = StatusInternalServerError"

subsection \<open>Maps are references into a store\<close>

text \<open>
  A Go \<open>map[string]string\<close> is a reference: two variables may denote the same map, and an
  assignment through one is seen through the other. The store is the list of all maps
  allocated so far, a reference is \<open>None\<close> (the nil map) or \<open>Some a\<close>, the index of the map
  in the store, and allocation appends to the store.
\<close>

type_synonym map_ref = "nat option"

type_synonym heap = "(string \<rightharpoonup> string) list"

definition map_contents :: "heap \<Rightarrow> map_ref \<Rightarrow> (string \<rightharpoonup> string)" where
  \<comment> \<open>Reading a nil map finds no key.\<close>
  "map_contents h r =
     (case r of None \<Rightarrow> Map.empty
      | Some a \<Rightarrow> if a < length h then h ! a else Map.empty)"

definition map_assign :: "heap \<Rightarrow> map_ref \<Rightarrow> string \<Rightarrow> string \<Rightarrow> panic + heap" where
  \<comment> \<open>\<open>m[k] = v\<close>; assigning into the nil map panics. \<open>make_map\<close> returns no reference
      outside the store; such a reference denotes no map.\<close>
  "map_assign h r k v =
     (case r of None \<Rightarrow> Inl NilMapAssignment
      | Some a \<Rightarrow>
          if a < length h then Inr (h[a := (h ! a)(k \<mapsto> v)]) else Inl NilDereference)"

definition make_map :: "heap \<Rightarrow> (string \<rightharpoonup> string) \<Rightarrow> map_ref \<times> heap" where
  \<comment> \<open>A map literal allocates a map that no other reference denotes.\<close>
  "make_map h m = (Some (length h), h @ [m])"

subsection \<open>The Error struct and its options\<close>

record ResourceInfo =
  Type :: string
  Name :: string

record Error =
  err :: "go_error option"
  description :: string
  reason :: string
  httpCode :: int
  grpcStatusCode :: Code
  metadata :: map_ref
  resourceInfo :: "ResourceInfo option"

text \<open>
  An \<open>Option\<close> is a closure \<open>func(*Error)\<close> that assigns fields of the struct it is given:
  a function from the struct before to the struct after.
\<close>

type_synonym Option = "Error \<Rightarrow> Error"

definition WithErrorReason :: "string \<Rightarrow> int \<Rightarrow> Code \<Rightarrow> Option" where
  "WithErrorReason reason' httpCode' grpcStatusCode' =
     (\<lambda>e. e\<lparr>reason := reason', grpcStatusCode := grpcStatusCode', httpCode := httpCode'\<rparr>)"

definition WithResourceInfo :: "ResourceInfo option \<Rightarrow> Option" where
  "WithResourceInfo resourceInfo' = (\<lambda>e. e\<lparr>resourceInfo := resourceInfo'\<rparr>)"

definition WithDescription :: "string \<Rightarrow> Option" where
  "WithDescription description' = (\<lambda>e. e\<lparr>description := description'\<rparr>)"

definition WithMetadata :: "map_ref \<Rightarrow> Option" where
  "WithMetadata md = (\<lambda>e. e\<lparr>metadata := md\<rparr>)"

definition UnknownErrorReason :: Option where
  "UnknownErrorReason = WithErrorReason unknown unknownHTTPCode codes_Unknown"

text \<open>The loop of \<open>New\<close> over its options, in order.\<close>

primrec apply_options :: "Option list \<Rightarrow> Error \<Rightarrow> Error" where
  "apply_options [] de = de"
| "apply_options (option # options) de = apply_options options (option de)"

text \<open>
  \<open>New\<close> returns nil for a nil \<open>err\<close>. Otherwise the struct literal sets \<open>err\<close>, \<open>reason\<close>,
  \<open>httpCode\<close> and \<open>grpcStatusCode\<close>; the fields it does not mention have their zero value.
  The parameter \<open>metadata\<close> does not occur in the body.
\<close>

definition New :: "go_error option \<Rightarrow> map_ref \<Rightarrow> Option list \<Rightarrow> Error option" where
  "New err' metadata' options =
     (case err' of
        None \<Rightarrow> None
      | Some cause \<Rightarrow>
          Some (apply_options options
            \<lparr>err = Some cause, description = [], reason = unknown,
             httpCode = unknownHTTPCode, grpcStatusCode = codes_Unknown,
             metadata = None, resourceInfo = None\<rparr>))"

text \<open>
  Method \<open>Error()\<close> tests its receiver against nil, so its receiver is optional here. The
  other methods read a field of the receiver at once and are given a receiver that is
  not nil.
\<close>

definition Error_method :: "Error option \<Rightarrow> string" where
  "Error_method e =
     (case e of
        None \<Rightarrow> []
      | Some e' \<Rightarrow> (case err e' of None \<Rightarrow> [] | Some c \<Rightarrow> Error_text c))"

definition Unwrap :: "Error \<Rightarrow> go_error option" where
  "Unwrap e = err e"

definition Description :: "Error \<Rightarrow> panic + string" where
  \<comment> \<open>\<open>e.err.Error()\<close> on a nil \<open>err\<close> is a nil dereference.\<close>
  "Description e =
     (if description e \<noteq> [] then Inr (description e)
      else case err e of None \<Rightarrow> Inl NilDereference | Some c \<Rightarrow> Inr (Error_text c))"

definition HTTPCode :: "Error \<Rightarrow> int" where
  "HTTPCode e = (if httpCode e = 0 then StatusInternalServerError else httpCode e)"

text \<open>
  The structs built by \<open>New\<close> from a cause with the four \<open>With\<close> options of the
  package: the values the rendering methods are called on.
\<close>

inductive with_option :: "Option \<Rightarrow> bool" where
  "with_option (WithErrorReason reason' httpCode' grpcStatusCode')"
| "with_option (WithResourceInfo resourceInfo')"
| "with_option (WithDescription description')"
| "with_option (WithMetadata md)"

inductive constructed :: "Error \<Rightarrow> bool" where
  "list_all with_option options \<Longrightarrow> New (Some cause) md options = Some e \<Longrightarrow> constructed e"

subsection \<open>Detail records\<close>

text \<open>
  The protobuf messages \<open>errdetails.ErrorInfo\<close>, \<open>errdetails.ResourceInfo\<close> and
  \<open>customerrors.DaprKitErrorInfo\<close>, with the fields the struct literals of the source
  assign. \<open>Message\<close> is the interface \<open>protoiface.MessageV1\<close> over the three.
\<close>

record ErrorInfo =
  ei_Domain :: string
  ei_Reason :: string
  ei_Metadata :: map_ref

record ResourceInfoDetail =
  ri_ResourceType :: string
  ri_ResourceName :: string
  ri_Owner :: string
  ri_Description :: string

record DaprKitErrorInfo =
  kei_Domain :: string
  kei_Reason :: string
  kei_Metadata :: map_ref

datatype Message =
  ErrorInfoMsg ErrorInfo
| ResourceInfoMsg ResourceInfoDetail
| DaprKitErrorInfoMsg DaprKitErrorInfo

definition newErrorInfo :: "string \<Rightarrow> map_ref \<Rightarrow> ErrorInfo" where
  "newErrorInfo reason' md =
     \<lparr>ei_Domain = Domain_const, ei_Reason = reason', ei_Metadata = md\<rparr>"

definition newResourceInfo :: "ResourceInfo \<Rightarrow> go_error option \<Rightarrow> panic + ResourceInfoDetail" where
  \<comment> \<open>\<open>err.Error()\<close> on a nil \<open>err\<close> is a nil dereference.\<close>
  "newResourceInfo rid err' =
     (case err' of
        None \<Rightarrow> Inl NilDereference
      | Some c \<Rightarrow>
          Inr \<lparr>ri_ResourceType = Type rid, ri_ResourceName = Name rid,
               ri_Owner = Owner, ri_Description = Error_text c\<rparr>)"

subsection \<open>The status and JSON libraries\<close>

text \<open>
  Packages \<open>status\<close> and \<open>protojson\<close> of gRPC and protobuf are not part of the repository.
  The functions of theirs that the source calls are parameters of the model, collected
  in one record, and every theorem below holds for any functions in their place. \<open>'s\<close> is
  the type of \<open>*status.Status\<close> and \<open>'p\<close> that of the protobuf message \<open>Proto()\<close> returns.
  A Go result \<open>(v, err)\<close> is a sum with \<open>Inl\<close> for an \<open>err\<close> that is not nil.
  \<open>WithDetails\<close> encodes the messages when it is called, so it is given the store to read
  their maps. \<open>status_Newf\<close> is \<open>status.Newf\<close> applied to a format and no further argument.
\<close>

record ('s, 'p) StatusLib =
  status_New :: "Code \<Rightarrow> string \<Rightarrow> 's"
  status_Newf :: "Code \<Rightarrow> string \<Rightarrow> 's"
  WithDetails :: "heap \<Rightarrow> 's \<Rightarrow> Message list \<Rightarrow> go_error + 's"
  Proto :: "'s \<Rightarrow> 'p"
  Err :: "'s \<Rightarrow> go_error option"
  Marshal :: "'p \<Rightarrow> go_error + string"

subsection \<open>Rendering\<close>

definition GRPCStatus :: "('s, 'p) StatusLib \<Rightarrow> heap \<Rightarrow> Error \<Rightarrow> panic + 's" where
  "GRPCStatus L h e =
     (let messages = [ErrorInfoMsg (newErrorInfo (reason e) (metadata e))] in
      case (case resourceInfo e of
              None \<Rightarrow> Inr messages
            | Some rid \<Rightarrow>
                (case newResourceInfo rid (err e) of
                   Inl p \<Rightarrow> Inl p
                 | Inr ri \<Rightarrow> Inr (messages @ [ResourceInfoMsg ri]))) of
        Inl p \<Rightarrow> Inl p
      | Inr messages' \<Rightarrow>
          (case WithDetails L h (status_New L (grpcStatusCode e) (description e)) messages' of
             Inl stErr \<Rightarrow> Inr (status_New L (grpcStatusCode e) (description e))
           | Inr ste \<Rightarrow> Inr ste))"

definition ToHTTP :: "('s, 'p) StatusLib \<Rightarrow> heap \<Rightarrow> Error \<Rightarrow> panic + int \<times> string" where
  "ToHTTP L h e =
     (case GRPCStatus L h e of
        Inl p \<Rightarrow> Inl p
      | Inr st \<Rightarrow>
          (case Marshal L (Proto L st) of
             Inl err' \<Rightarrow> Inr (StatusInternalServerError, Error_text err')
           | Inr resp \<Rightarrow> Inr (httpCode e, resp)))"

definition JSONErrorValue :: "('s, 'p) StatusLib \<Rightarrow> heap \<Rightarrow> Error \<Rightarrow> panic + string" where
  "JSONErrorValue L h e =
     (case GRPCStatus L h e of
        Inl p \<Rightarrow> Inl p
      | Inr st \<Rightarrow>
          (case Marshal L (Proto L st) of
             Inl err' \<Rightarrow> Inr (Error_text err')
           | Inr b \<Rightarrow> Inr b))"

section \<open>Package status\<close>

text \<open>
  \<open>ConstructErrorInfo\<close> allocates a map holding the entry for \<open>key\<close> and then assigns
  every entry of \<open>metadata\<close> into it. The keys of a map are distinct, so the order in
  which \<open>range\<close> visits them does not matter: the loop leaves the new map holding its
  first entry overridden by the entries of \<open>metadata\<close>. Ranging over a nil map visits
  nothing. Both functions return the store with the new map in it.
\<close>

definition range_assign :: "heap \<Rightarrow> map_ref \<Rightarrow> (string \<rightharpoonup> string) \<Rightarrow> heap" where
  \<comment> \<open>\<open>for k, v := range src { dst[k] = v }\<close> for a \<open>dst\<close> that was just allocated.\<close>
  "range_assign h dst src =
     (case dst of
        None \<Rightarrow> h
      | Some a \<Rightarrow> if a < length h then h[a := (h ! a) ++ src] else h)"

definition ConstructErrorInfo ::
    "heap \<Rightarrow> string \<Rightarrow> string \<Rightarrow> string \<Rightarrow> map_ref \<Rightarrow> ErrorInfo \<times> heap" where
  "ConstructErrorInfo h domain key reason' metadata' =
     (let (r, h1) = make_map h [''key'' \<mapsto> key];
          ei = \<lparr>ei_Domain = domain, ei_Reason = reason', ei_Metadata = r\<rparr>;
          h2 = range_assign h1 (ei_Metadata ei) (map_contents h1 metadata')
      in (ei, h2))"

definition ConstructDaprKitErrorInfo ::
    "heap \<Rightarrow> string \<Rightarrow> string \<Rightarrow> string \<Rightarrow> map_ref \<Rightarrow> DaprKitErrorInfo \<times> heap" where
  "ConstructDaprKitErrorInfo h domain key reason' metadata' =
     (let (r, h1) = make_map h [''key'' \<mapsto> key];
          ei = \<lparr>kei_Domain = domain, kei_Reason = reason', kei_Metadata = r\<rparr>;
          h2 = range_assign h1 (kei_Metadata ei) (map_contents h1 metadata')
      in (ei, h2))"

definition ConstructResourceInfo ::
    "string \<Rightarrow> string \<Rightarrow> string \<Rightarrow> string \<Rightarrow> ResourceInfoDetail" where
  "ConstructResourceInfo owner resourceName description' resourceType =
     \<lparr>ri_ResourceType = resourceType, ri_ResourceName = resourceName,
      ri_Owner = owner, ri_Description = description'\<rparr>"

definition ConstructError ::
    "('s, 'p) StatusLib \<Rightarrow> heap \<Rightarrow> Code \<Rightarrow> go_error option \<Rightarrow> string \<Rightarrow> string \<Rightarrow> string \<Rightarrow>
     string \<Rightarrow> string \<Rightarrow> string \<Rightarrow> string \<Rightarrow> map_ref \<Rightarrow> go_error option \<times> heap" where
  "ConstructError L h code err' key errDescription resourceType reason' owner domain
       resourceName metadata' =
     (let (ei, h1) = ConstructErrorInfo h domain key reason' metadata';
          ri = ConstructResourceInfo owner resourceName errDescription resourceType;
          (kei, h2) = ConstructDaprKitErrorInfo h1 domain key reason' metadata'
      in case WithDetails L h2 (status_Newf L code errDescription)
                [ErrorInfoMsg ei, ResourceInfoMsg ri, DaprKitErrorInfoMsg kei] of
           Inl stErr \<Rightarrow> (err', h2)
         | Inr ste \<Rightarrow> (Err L ste, h2))"

subsection \<open>Example values\<close>

text \<open>
  Two instances of the library parameters, written out as abbreviations: one whose
  \<open>WithDetails\<close> refuses code OK and otherwise appends the messages, and whose \<open>Marshal\<close>
  succeeds; one whose \<open>WithDetails\<close> and \<open>Marshal\<close> always fail. A status is a triple of
  code, message and details there. Then two structs that \<open>New\<close> builds.
\<close>

abbreviation plain_lib ::
    "(Code \<times> string \<times> Message list, Code \<times> string \<times> Message list) StatusLib" where
  "plain_lib \<equiv>
     \<lparr>status_New = (\<lambda>c m. (c, m, [])),
      status_Newf = (\<lambda>c m. (c, m, [])),
      WithDetails = (\<lambda>h s ds. if fst s = 0 then Inl (GoError ''no details for code OK'')
                      else Inr (fst s, fst (snd s), snd (snd s) @ ds)),
      Proto = (\<lambda>s. s),
      Err = (\<lambda>s. if fst s = 0 then None else Some (GoError (fst (snd s)))),
      Marshal = (\<lambda>p. Inr (fst (snd p)))\<rparr>"

abbreviation failing_lib ::
    "(Code \<times> string \<times> Message list, Code \<times> string \<times> Message list) StatusLib" where
  "failing_lib \<equiv>
     \<lparr>status_New = (\<lambda>c m. (c, m, [])),
      status_Newf = (\<lambda>c m. (c, m, [])),
      WithDetails = (\<lambda>h s ds. Inl (GoError ''cannot encode detail'')),
      Proto = (\<lambda>s. s),
      Err = (\<lambda>s. if fst s = 0 then None else Some (GoError (fst (snd s)))),
      Marshal = (\<lambda>p. Inl (GoError ''cannot marshal''))\<rparr>"

abbreviation redis_error :: Error where
  "redis_error \<equiv>
     \<lparr>err = Some (GoError ''boom''), description = ''not found'', reason = ''NOT_FOUND'',
      httpCode = 404, grpcStatusCode = 5, metadata = Some 0,
      resourceInfo = Some \<lparr>Type = ''state'', Name = ''redis''\<rparr>\<rparr>"

abbreviation zero_code_error :: Error where
  "zero_code_error \<equiv>
     \<lparr>err = Some (GoError ''boom''), description = [], reason = ''X'',
      httpCode = 0, grpcStatusCode = 2, metadata = None, resourceInfo = None\<rparr>"

section \<open>Construction\<close>

text \<open>
  C3. For every metadata mapping and every sequence of options, \<open>New\<close> of a nil cause
  returns nil, not a zero-valued struct.
\<close>

theorem New_nil_cause: "New None md options = None"
  by (simp add: New_def)

text \<open>
  C4. For every cause that is not nil, \<open>New\<close> with no options yields a struct whose
  reason is \<open>UNKNOWN_REASON\<close>, whose \<open>HTTPCode()\<close> is 500, whose gRPC status code is
  Unknown, and whose \<open>Description()\<close> is the text of the cause.
\<close>

theorem New_defaults:
  "\<exists>e. New (Some cause) md [] = Some e
     \<and> reason e = ''UNKNOWN_REASON''
     \<and> HTTPCode e = 500
     \<and> grpcStatusCode e = codes_Unknown
     \<and> Description e = Inr (Error_text cause)"
  by (simp add: New_def HTTPCode_def Description_def unknown_def unknownHTTPCode_def
      StatusInternalServerError_def)

text \<open>The four options of the package leave the cause alone, so a constructed struct has one.\<close>

lemma apply_options_err:
  "list_all with_option options \<Longrightarrow> err (apply_options options de) = err de"
  by (induction options arbitrary: de)
     (auto elim!: with_option.cases
           simp: WithErrorReason_def WithResourceInfo_def WithDescription_def WithMetadata_def)

lemma constructed_err: "constructed e \<Longrightarrow> \<exists>c. err e = Some c"
  by (auto elim!: constructed.cases simp: New_def apply_options_err)

lemma redis_error_constructed: "constructed redis_error"
proof (rule constructed.intros)
  show "list_all with_option
      [WithErrorReason ''NOT_FOUND'' 404 5, WithMetadata (Some 0),
       WithDescription ''not found'',
       WithResourceInfo (Some \<lparr>Type = ''state'', Name = ''redis''\<rparr>)]"
    by (simp add: with_option.intros)
  show "New (Some (GoError ''boom'')) None
      [WithErrorReason ''NOT_FOUND'' 404 5, WithMetadata (Some 0),
       WithDescription ''not found'',
       WithResourceInfo (Some \<lparr>Type = ''state'', Name = ''redis''\<rparr>)] = Some redis_error"
    by (simp add: New_def WithErrorReason_def WithMetadata_def WithDescription_def
        WithResourceInfo_def)
qed

lemma zero_code_error_constructed: "constructed zero_code_error"
proof (rule constructed.intros)
  show "list_all with_option [WithErrorReason ''X'' 0 2]"
    by (simp add: with_option.intros)
  show "New (Some (GoError ''boom'')) None [WithErrorReason ''X'' 0 2] = Some zero_code_error"
    by (simp add: New_def WithErrorReason_def codes_Unknown_def)
qed

subsection \<open>The metadata argument of New\<close>

text \<open>
  Only \<open>WithMetadata\<close> assigns the field \<open>metadata\<close>: without it the field keeps the nil
  of the struct literal, whatever map was passed to \<open>New\<close>.
\<close>

lemma apply_options_metadata:
  "\<forall>md. WithMetadata md \<notin> set options \<Longrightarrow> list_all with_option options \<Longrightarrow>
   metadata (apply_options options de) = metadata de"
  by (induction options arbitrary: de)
     (auto elim!: with_option.cases
           simp: WithErrorReason_def WithResourceInfo_def WithDescription_def WithMetadata_def)

lemma New_metadata_without_WithMetadata:
  assumes "list_all with_option options" and "\<forall>md'. WithMetadata md' \<notin> set options"
    and "New (Some cause) md options = Some e"
  shows "metadata e = None"
  using assms by (auto simp: New_def apply_options_metadata)

text \<open>
  C1 says that \<open>New(cause, m, options...)\<close> with no \<open>WithMetadata\<close> among the options
  yields a struct whose metadata field is \<open>m\<close>. The code at \<open>New(errors.New("boom"), m)\<close>
  for the map \<open>m\<close> holding \<open>k: v\<close> (the first map of the store): the field is nil, which
  has no entry for \<open>k\<close>, while \<open>m\<close> has one.
\<close>

theorem New_drops_metadata_argument:
  "\<exists>e. New (Some (GoError ''boom'')) (Some 0) [] = Some e
     \<and> metadata e = None
     \<and> map_contents [[''k'' \<mapsto> ''v'']] (metadata e) ''k'' = None
     \<and> map_contents [[''k'' \<mapsto> ''v'']] (Some 0) ''k'' = Some ''v''"
  by (simp add: New_def map_contents_def)

subsection \<open>The status code accessor\<close>

text \<open>
  C9. \<open>HTTPCode()\<close> never returns 0. In particular a struct constructed with an option
  that sets \<open>httpCode\<close> to 0 stores 0 and still answers 500.
\<close>

theorem HTTPCode_never_zero:
  "HTTPCode e \<noteq> 0
   \<and> (\<exists>e'. New (Some cause) md [WithErrorReason reason' 0 code] = Some e'
          \<and> httpCode e' = 0 \<and> HTTPCode e' = 500)"
  by (simp add: HTTPCode_def StatusInternalServerError_def New_def WithErrorReason_def)

section \<open>Detail records and aliasing\<close>

text \<open>
  C2 says that \<open>newErrorInfo\<close> stores a fresh copy of the map, so that an assignment into
  the map afterwards does not change the record's metadata. It does: the record built
  from the empty map \<open>m\<close> has no entry for \<open>k\<close>, and after \<open>m["k"] = "v"\<close> it has one.
\<close>

theorem newErrorInfo_aliases_counterexample:
  "map_assign [Map.empty] (Some 0) ''k'' ''v'' = Inr [[''k'' \<mapsto> ''v'']]
   \<and> map_contents [Map.empty] (ei_Metadata (newErrorInfo ''R'' (Some 0))) ''k'' = None
   \<and> map_contents [[''k'' \<mapsto> ''v'']] (ei_Metadata (newErrorInfo ''R'' (Some 0))) ''k''
       = Some ''v''"
  by (simp add: map_assign_def map_contents_def newErrorInfo_def)

text \<open>
  C2, amended. \<open>newErrorInfo\<close> takes a reason and a map and no domain. The record's
  domain is the constant \<open>dapr.io\<close>, its reason is the reason passed, and its metadata is
  the map passed, the same reference and no copy: in every store the record's metadata
  has the contents of that map.
\<close>

theorem newErrorInfo_stores_reference:
  "ei_Domain (newErrorInfo reason' md) = ''dapr.io''
   \<and> ei_Reason (newErrorInfo reason' md) = reason'
   \<and> ei_Metadata (newErrorInfo reason' md) = md
   \<and> map_contents h (ei_Metadata (newErrorInfo reason' md)) = map_contents h md"
  by (simp add: newErrorInfo_def Domain_const_def)

text \<open>
  The copy is made in package \<open>status\<close>: the record of \<open>ConstructErrorInfo\<close> holds a new
  map with the entry for \<open>key\<close> overridden by the entries of \<open>metadata\<close>, and an
  assignment into \<open>metadata\<close> afterwards leaves it as it is.
\<close>

lemma ConstructErrorInfo_fresh_copy:
  assumes "ConstructErrorInfo h domain key reason' md = (ei, h1)"
    and "map_assign h1 md k v = Inr h2"
    and "md = Some a" and "a < length h"
  shows "map_contents h1 (ei_Metadata ei) = [''key'' \<mapsto> key] ++ map_contents h md
     \<and> map_contents h2 (ei_Metadata ei) = map_contents h1 (ei_Metadata ei)"
  using assms
  by (auto simp: ConstructErrorInfo_def make_map_def range_assign_def map_contents_def
      map_assign_def nth_append Let_def split: if_splits)

section \<open>Rendering to a gRPC status\<close>

lemma GRPCStatus_Some_err:
  assumes "err e = Some c"
  shows "GRPCStatus L h e =
      Inr (case WithDetails L h (status_New L (grpcStatusCode e) (description e))
                  (ErrorInfoMsg \<lparr>ei_Domain = ''dapr.io'', ei_Reason = reason e,
                                  ei_Metadata = metadata e\<rparr>
                   # (case resourceInfo e of
                        None \<Rightarrow> []
                      | Some rid \<Rightarrow>
                          [ResourceInfoMsg \<lparr>ri_ResourceType = Type rid, ri_ResourceName = Name rid,
                             ri_Owner = ''components-contrib'', ri_Description = Error_text c\<rparr>])) of
             Inl stErr \<Rightarrow> status_New L (grpcStatusCode e) (description e)
           | Inr ste \<Rightarrow> ste)"
proof (cases "resourceInfo e")
  case None
  then show ?thesis
    by (simp add: GRPCStatus_def newErrorInfo_def Domain_const_def split: sum.split)
next
  case (Some rid)
  then show ?thesis
    using assms
    by (simp add: GRPCStatus_def newErrorInfo_def newResourceInfo_def Domain_const_def Owner_def
             split: sum.split)
qed

lemma GRPCStatus_returns:
  assumes "constructed e"
  shows "\<exists>st. GRPCStatus L h e = Inr st"
proof -
  from assms obtain c where "err e = Some c"
    using constructed_err by blast
  then show ?thesis
    by (simp add: GRPCStatus_Some_err)
qed

text \<open>
  C5. For every constructed struct, \<open>GRPCStatus()\<close> returns a status and never fails.
  The details it attaches are the ErrorInfo record first and, exactly when
  \<open>resourceInfo\<close> is present, a ResourceInfo record after it, built from the resource,
  the owner constant and the text of the cause. When attaching fails, the result is the
  bare status \<open>status.New\<close> makes of the same code and description.
\<close>

theorem GRPCStatus_details_and_fallback:
  assumes "constructed e"
  shows "\<exists>c. err e = Some c \<and>
    GRPCStatus L h e =
      Inr (case WithDetails L h (status_New L (grpcStatusCode e) (description e))
                  (ErrorInfoMsg \<lparr>ei_Domain = ''dapr.io'', ei_Reason = reason e,
                                  ei_Metadata = metadata e\<rparr>
                   # (case resourceInfo e of
                        None \<Rightarrow> []
                      | Some rid \<Rightarrow>
                          [ResourceInfoMsg \<lparr>ri_ResourceType = Type rid, ri_ResourceName = Name rid,
                             ri_Owner = ''components-contrib'', ri_Description = Error_text c\<rparr>])) of
             Inl stErr \<Rightarrow> status_New L (grpcStatusCode e) (description e)
           | Inr ste \<Rightarrow> ste)"
proof -
  from assms obtain c where c: "err e = Some c"
    using constructed_err by blast
  from GRPCStatus_Some_err[OF c] c show ?thesis
    by blast
qed

theorem GRPCStatus_details_and_fallback_witness:
  "constructed redis_error
   \<and> GRPCStatus plain_lib [[''k'' \<mapsto> ''v'']] redis_error =
       Inr (5, ''not found'',
            [ErrorInfoMsg \<lparr>ei_Domain = ''dapr.io'', ei_Reason = ''NOT_FOUND'',
                            ei_Metadata = Some 0\<rparr>,
             ResourceInfoMsg \<lparr>ri_ResourceType = ''state'', ri_ResourceName = ''redis'',
                               ri_Owner = ''components-contrib'', ri_Description = ''boom''\<rparr>])
   \<and> GRPCStatus failing_lib [[''k'' \<mapsto> ''v'']] redis_error = Inr (5, ''not found'', [])"
  using GRPCStatus_details_and_fallback[OF redis_error_constructed, of plain_lib "[[''k'' \<mapsto> ''v'']]"]
    GRPCStatus_details_and_fallback[OF redis_error_constructed, of failing_lib "[[''k'' \<mapsto> ''v'']]"]
    redis_error_constructed
  by simp

section \<open>Rendering to HTTP\<close>

text \<open>
  C7. For every constructed struct, \<open>ToHTTP()\<close> returns and never fails: when the JSON
  serialization of the status succeeds, the pair of the stored \<open>httpCode\<close> and the JSON
  bytes; when it fails, 500 and the text of the serialization error as the body.
\<close>

theorem ToHTTP_total:
  assumes "constructed e"
  shows "\<exists>st. GRPCStatus L h e = Inr st \<and>
    ToHTTP L h e =
      Inr (case Marshal L (Proto L st) of
             Inl err' \<Rightarrow> (500, Error_text err')
           | Inr resp \<Rightarrow> (httpCode e, resp))"
proof -
  from GRPCStatus_returns[OF assms, of L h] obtain st where st: "GRPCStatus L h e = Inr st" ..
  have "ToHTTP L h e =
      Inr (case Marshal L (Proto L st) of
             Inl err' \<Rightarrow> (500, Error_text err')
           | Inr resp \<Rightarrow> (httpCode e, resp))"
    by (cases "Marshal L (Proto L st)") (simp_all add: ToHTTP_def st StatusInternalServerError_def)
  with st show ?thesis
    by (intro exI[of _ st] conjI)
qed

theorem ToHTTP_total_witness:
  "constructed redis_error
   \<and> ToHTTP plain_lib [[''k'' \<mapsto> ''v'']] redis_error = Inr (404, ''not found'')
   \<and> ToHTTP failing_lib [[''k'' \<mapsto> ''v'']] redis_error = Inr (500, ''cannot marshal'')"
  using ToHTTP_total[OF redis_error_constructed, of plain_lib "[[''k'' \<mapsto> ''v'']]"]
    ToHTTP_total[OF redis_error_constructed, of failing_lib "[[''k'' \<mapsto> ''v'']]"]
    redis_error_constructed
  by (simp add: GRPCStatus_Some_err)

text \<open>
  C8. For every constructed struct, the bytes \<open>JSONErrorValue()\<close> returns are the bytes
  in the pair \<open>ToHTTP()\<close> returns, whether the serialization succeeds or fails.
\<close>

theorem JSONErrorValue_same_bytes:
  assumes "constructed e"
  shows "\<exists>code body. ToHTTP L h e = Inr (code, body) \<and> JSONErrorValue L h e = Inr body"
proof -
  from GRPCStatus_returns[OF assms, of L h] obtain st where st: "GRPCStatus L h e = Inr st" ..
  show ?thesis
    by (cases "Marshal L (Proto L st)") (simp_all add: ToHTTP_def JSONErrorValue_def st)
qed

theorem JSONErrorValue_same_bytes_witness:
  "constructed redis_error
   \<and> ToHTTP plain_lib [[''k'' \<mapsto> ''v'']] redis_error = Inr (404, ''not found'')
   \<and> JSONErrorValue plain_lib [[''k'' \<mapsto> ''v'']] redis_error = Inr ''not found''
   \<and> ToHTTP failing_lib [[''k'' \<mapsto> ''v'']] redis_error = Inr (500, ''cannot marshal'')
   \<and> JSONErrorValue failing_lib [[''k'' \<mapsto> ''v'']] redis_error = Inr ''cannot marshal''"
  using JSONErrorValue_same_bytes[OF redis_error_constructed, of plain_lib "[[''k'' \<mapsto> ''v'']]"]
    JSONErrorValue_same_bytes[OF redis_error_constructed, of failing_lib "[[''k'' \<mapsto> ''v'']]"]
    redis_error_constructed
  by (simp add: GRPCStatus_Some_err ToHTTP_def JSONErrorValue_def StatusInternalServerError_def)

text \<open>
  C10. For every constructed struct whose stored \<open>httpCode\<close> is 0, \<open>HTTPCode()\<close> answers
  500, and \<open>ToHTTP()\<close>, when the serialization succeeds, returns the stored 0 with the
  JSON bytes: only the accessor replaces 0.
\<close>

theorem ToHTTP_keeps_stored_zero:
  assumes "constructed e" and "httpCode e = 0"
  shows "\<exists>st. GRPCStatus L h e = Inr st
     \<and> HTTPCode e = 500
     \<and> (\<forall>resp. Marshal L (Proto L st) = Inr resp \<longrightarrow> ToHTTP L h e = Inr (0, resp))"
proof -
  from GRPCStatus_returns[OF assms(1), of L h] obtain st where st: "GRPCStatus L h e = Inr st" ..
  have "HTTPCode e = 500"
    using assms(2) by (simp add: HTTPCode_def StatusInternalServerError_def)
  moreover have "\<forall>resp. Marshal L (Proto L st) = Inr resp \<longrightarrow> ToHTTP L h e = Inr (0, resp)"
    using assms(2) by (simp add: ToHTTP_def st)
  ultimately show ?thesis
    using st by (intro exI[of _ st] conjI)
qed

theorem ToHTTP_keeps_stored_zero_witness:
  "constructed zero_code_error \<and> httpCode zero_code_error = 0
   \<and> HTTPCode zero_code_error = 500
   \<and> Marshal plain_lib (Proto plain_lib
        (2, [], [ErrorInfoMsg \<lparr>ei_Domain = ''dapr.io'', ei_Reason = ''X'',
                                ei_Metadata = None\<rparr>])) = Inr []
   \<and> ToHTTP plain_lib [] zero_code_error = Inr (0, [])"
  using ToHTTP_keeps_stored_zero[OF zero_code_error_constructed, of plain_lib "[]"]
    zero_code_error_constructed
  by (simp add: GRPCStatus_Some_err)

section \<open>The composite constructor\<close>

text \<open>
  C6. \<open>ConstructError\<close> attaches three details to the status \<open>status.Newf\<close> makes of the
  code and the description: the ErrorInfo and the DaprKitErrorInfo, each with a new map
  of its own, and the ResourceInfo between them. When attaching them fails it returns
  the \<open>err\<close> it was given, as it is; otherwise it returns the error of the status with
  the details.
\<close>

theorem ConstructError_failure_policy:
  assumes "WithDetails L (h @ [[''key'' \<mapsto> key] ++ map_contents h metadata',
                               [''key'' \<mapsto> key] ++ map_contents h metadata'])
             (status_Newf L code errDescription)
             [ErrorInfoMsg \<lparr>ei_Domain = domain, ei_Reason = reason',
                             ei_Metadata = Some (length h)\<rparr>,
              ResourceInfoMsg \<lparr>ri_ResourceType = resourceType, ri_ResourceName = resourceName,
                                ri_Owner = owner, ri_Description = errDescription\<rparr>,
              DaprKitErrorInfoMsg \<lparr>kei_Domain = domain, kei_Reason = reason',
                                    kei_Metadata = Some (Suc (length h))\<rparr>] = r"
  shows "fst (ConstructError L h code err' key errDescription resourceType reason' owner domain
            resourceName metadata') =
         (case r of Inl stErr \<Rightarrow> err' | Inr ste \<Rightarrow> Err L ste)"
  using assms
  by (auto simp: ConstructError_def ConstructErrorInfo_def ConstructDaprKitErrorInfo_def
        ConstructResourceInfo_def make_map_def range_assign_def map_contents_def nth_append
        Let_def split: sum.splits option.splits)

theorem ConstructError_failure_policy_witness:
  "fst (ConstructError failing_lib [] 5 (Some (GoError ''boom'')) ''k1'' ''not found'' ''state''
          ''NOT_FOUND'' ''components-contrib'' ''dapr.io'' ''redis'' None) = Some (GoError ''boom'')
   \<and> fst (ConstructError plain_lib [] 5 (Some (GoError ''boom'')) ''k1'' ''not found'' ''state''
          ''NOT_FOUND'' ''components-contrib'' ''dapr.io'' ''redis'' None)
       = Some (GoError ''not found'')"
  using ConstructError_failure_policy[OF refl, of failing_lib "[]" 5 "Some (GoError ''boom'')"
      "''k1''" "''not found''" "''state''" "''NOT_FOUND''" "''components-contrib''" "''dapr.io''"
      "''redis''" None]
    ConstructError_failure_policy[OF refl, of plain_lib "[]" 5 "Some (GoError ''boom'')"
      "''k1''" "''not found''" "''state''" "''NOT_FOUND''" "''components-contrib''" "''dapr.io''"
      "''redis''" None]
  by simp

end
